theory Spec2Isabelle
  imports Main "HOL-Library.Sublist"
begin

section \<open>Values of the platform\<close>

text \<open>
  Strings are byte lists (UTF-8). The only string test of the program,
  \<^verbatim>\<open>body.startsWith('@discord-js-bot pack this')\<close>, has an ASCII argument, and an
  ASCII prefix of the UTF-16 code units is the same as an ASCII prefix of the UTF-8
  bytes, so \<^const>\<open>prefix\<close> on bytes is \<^verbatim>\<open>startsWith\<close>.

  Issue numbers, comment ids, run ids and reaction ids are the non-negative integers the
  GitHub API hands out: \<^typ>\<open>nat\<close>. A template literal prints such a number in
  decimal (JavaScript does so below \<open>10\<^sup>2\<^sup>1\<close>, far above any id).

  The handlers are those of \<^verbatim>\<open>src/app.ts\<close>; line numbers refer to that file.
\<close>

definition digit_char :: "nat \<Rightarrow> char" where
  "digit_char d = char_of (48 + d)"

fun number_toString :: "nat \<Rightarrow> string" where
  "number_toString n =
     (if n < 10 then [digit_char n]
      else number_toString (n div 10) @ [digit_char (n mod 10)])"

declare number_toString.simps [simp del]

datatype js_error = SyntaxError | TypeError | RequestError string

subsection \<open>Dates\<close>

text \<open>
  \<^verbatim>\<open>new Date(x)\<close> for the three kinds of argument the program passes:
  \<^verbatim>\<open>undefined\<close> gives an invalid date (time value NaN), \<^verbatim>\<open>null\<close> gives the
  epoch (time value 0), an ISO 8601 string gives the instant it denotes, in
  milliseconds since the epoch. A comparison \<^verbatim>\<open>a > b\<close> of two dates compares the
  time values as numbers and is false as soon as one of them is NaN.
\<close>

datatype date_arg = DUndefined | DNull | DInstant int

fun new_Date :: "date_arg \<Rightarrow> int option" where
  "new_Date DUndefined = None"
| "new_Date DNull = Some 0"
| "new_Date (DInstant t) = Some t"

fun date_gt :: "int option \<Rightarrow> int option \<Rightarrow> bool" where
  "date_gt (Some a) (Some b) = (a > b)"
| "date_gt _ _ = False"

subsection \<open>Objects used as dictionaries\<close>

text \<open>
  The accumulator of the reduction in \<^verbatim>\<open>isPRGreen\<close> starts as the object literal
  \<^verbatim>\<open>{}\<close>, whose prototype is \<^verbatim>\<open>Object.prototype\<close>. Reading \<^verbatim>\<open>latest[k]\<close>
  gives the own property \<open>k\<close> when there is one, the member of
  \<^verbatim>\<open>Object.prototype\<close> of that name when there is one (a function, or for
  \<^verbatim>\<open>__proto__\<close> the prototype object: truthy, and without a \<^verbatim>\<open>completed_at\<close>),
  and \<^verbatim>\<open>undefined\<close> otherwise. Own properties are kept as an association list in
  creation order.
\<close>

definition Object_prototype_keys :: "string list" where
  "Object_prototype_keys =
     [''constructor'', ''__proto__'', ''hasOwnProperty'', ''isPrototypeOf'',
      ''propertyIsEnumerable'', ''toLocaleString'', ''toString'', ''valueOf'',
      ''__defineGetter__'', ''__defineSetter__'', ''__lookupGetter__'',
      ''__lookupSetter__'']"

datatype 'a property = Own 'a | Inherited | Undefined

definition get_property :: "(string \<times> 'a) list \<Rightarrow> string \<Rightarrow> 'a property" where
  "get_property obj k =
     (case map_of obj k of
        Some v \<Rightarrow> Own v
      | None \<Rightarrow> if k \<in> set Object_prototype_keys then Inherited else Undefined)"

fun truthy :: "'a property \<Rightarrow> bool" where
  "truthy (Own v) = True"
| "truthy Inherited = True"
| "truthy Undefined = False"

text \<open>\<^verbatim>\<open>obj[k] = v\<close>: replaces the own property in place, or creates it at the end.
  (The program assigns only where the read gave an own property or \<^verbatim>\<open>undefined\<close>, so
  never through the setter of \<^verbatim>\<open>__proto__\<close>.)\<close>

fun set_property :: "(string \<times> 'a) list \<Rightarrow> string \<Rightarrow> 'a \<Rightarrow> (string \<times> 'a) list" where
  "set_property [] k v = [(k, v)]"
| "set_property (p # ps) k v =
     (if fst p = k then (k, v) # ps else p # set_property ps k v)"

text \<open>\<^verbatim>\<open>Object.values(obj)\<close>: the values of the own properties. (JavaScript lists
  integer-like keys first; the program only counts the values it filters.)\<close>

definition Object_values :: "(string \<times> 'a) list \<Rightarrow> 'a list" where
  "Object_values obj = map snd obj"

section \<open>The green-check evaluator: \<^verbatim>\<open>isPRGreen\<close>\<close>

text \<open>
  A check run as the Checks API returns it. \<open>conclusion\<close> and \<open>completed_at\<close> are
  \<^verbatim>\<open>null\<close> (\<open>None\<close>) while the run is queued or in progress; \<open>completed_at\<close> is
  otherwise an ISO 8601 string, held here as the instant it denotes in milliseconds
  since the epoch.
\<close>

record check_run =
  name :: string
  status :: string
  conclusion :: "string option"
  completed_at :: "int option"

definition completed_at_arg :: "int option \<Rightarrow> date_arg" where
  "completed_at_arg c = (case c of None \<Rightarrow> DNull | Some t \<Rightarrow> DInstant t)"

text \<open>\<^verbatim>\<open>latest[run.name]!.completed_at\<close>: the field of the kept run, or \<^verbatim>\<open>undefined\<close> on
  a member of \<^verbatim>\<open>Object.prototype\<close>. (On \<^verbatim>\<open>undefined\<close> the read is never evaluated:
  \<^verbatim>\<open>||\<close> has returned before.)\<close>

fun property_completed_at :: "check_run property \<Rightarrow> date_arg" where
  "property_completed_at (Own r) = completed_at_arg (completed_at r)"
| "property_completed_at Inherited = DUndefined"
| "property_completed_at Undefined = DUndefined"

text \<open>The callback of \<^verbatim>\<open>reduce\<close> (lines 36 to 43 of app.ts).\<close>

definition latest_step :: "(string \<times> check_run) list \<Rightarrow> check_run \<Rightarrow> (string \<times> check_run) list" where
  "latest_step latest run =
     (let cur = get_property latest (name run) in
      if \<not> truthy cur \<or>
         date_gt (new_Date (completed_at_arg (completed_at run)))
                 (new_Date (property_completed_at cur))
      then set_property latest (name run) run
      else latest)"

definition latestCheckRuns :: "check_run list \<Rightarrow> (string \<times> check_run) list" where
  "latestCheckRuns check_runs = foldl latest_step [] check_runs"

definition is_failed :: "check_run \<Rightarrow> bool" where
  "is_failed run \<longleftrightarrow>
     status run = ''completed'' \<and>
     conclusion run \<noteq> Some ''success'' \<and>
     conclusion run \<noteq> Some ''neutral'' \<and>
     conclusion run \<noteq> Some ''skipped''"

definition failedChecks :: "check_run list \<Rightarrow> check_run list" where
  "failedChecks check_runs = filter is_failed (Object_values (latestCheckRuns check_runs))"

text \<open>The value of \<^verbatim>\<open>isGreen\<close> (line 56), from the combined status state and the check
  runs that the three requests of \<^verbatim>\<open>isPRGreen\<close> returned.\<close>

definition isGreen :: "string \<Rightarrow> check_run list \<Rightarrow> bool" where
  "isGreen state check_runs \<longleftrightarrow>
     state = ''success'' \<and> length (failedChecks check_runs) = 0"


section \<open>The outside world\<close>

text \<open>
  The handlers talk to the GitHub REST API through \<^verbatim>\<open>data.octokit\<close>, to the key-value
  namespace \<^verbatim>\<open>env.PACK_STORAGE\<close> and to the logger. Every such step is an effect of
  the trace a handler leaves, in program order. An awaited request either resolves with
  its data (\<open>Inr\<close>) or rejects (\<open>Inl\<close>); a rejection that no
  \<^verbatim>\<open>catch\<close> takes ends the handler with that error.
\<close>

record workflow_run =
  run_id :: nat
  run_name :: "string option"
  event :: string
  run_status :: "string option"
  run_conclusion :: "string option"
  triggering_actor :: "string option" \<comment> \<open>\<^verbatim>\<open>triggering_actor?.login\<close>\<close>

record reaction =
  reaction_id :: nat
  content :: string

record app_info =
  slug :: "string option"

record PackInfo =
  commentId :: nat
  prNumber :: nat
  tag :: string
  workflowRunId :: nat

datatype level = Debug | Info | Warn | Error

datatype call =
    Pulls_get string string nat
  | Repos_getCombinedStatusForRef string string string
  | Checks_listForRef string string string
  | Repos_getCollaboratorPermissionLevel string string string
  | Reactions_createForIssueComment string string nat string
  | Actions_createWorkflowDispatch string string string string string string string
  | Actions_listWorkflowRuns string string string nat
  | Apps_getAuthenticated
  | Issues_createComment string string nat string
  | Reactions_listForIssueComment string string nat
  | Reactions_deleteForIssueComment string string nat nat
  | KV_get string
  | KV_put string string nat
  | KV_delete string

datatype effect = Log level string | Call call | Wait nat

text \<open>What each request of the REST client answers, by its arguments (owner and
  repository first, as in the source).\<close>

record octokit =
  pulls_get :: "string \<Rightarrow> string \<Rightarrow> nat \<Rightarrow> js_error + string"
  repos_getCombinedStatusForRef :: "string \<Rightarrow> string \<Rightarrow> string \<Rightarrow> js_error + string"
  checks_listForRef :: "string \<Rightarrow> string \<Rightarrow> string \<Rightarrow> js_error + check_run list"
  repos_getCollaboratorPermissionLevel :: "string \<Rightarrow> string \<Rightarrow> string \<Rightarrow> js_error + string"
  reactions_createForIssueComment :: "string \<Rightarrow> string \<Rightarrow> nat \<Rightarrow> string \<Rightarrow> js_error + unit"
  actions_createWorkflowDispatch ::
    "string \<Rightarrow> string \<Rightarrow> string \<Rightarrow> string \<Rightarrow> string \<Rightarrow> string \<Rightarrow> string \<Rightarrow> js_error + unit"
  actions_listWorkflowRuns :: "string \<Rightarrow> string \<Rightarrow> string \<Rightarrow> nat \<Rightarrow> js_error + workflow_run list"
  apps_getAuthenticated :: "js_error + app_info option"
  issues_createComment :: "string \<Rightarrow> string \<Rightarrow> nat \<Rightarrow> string \<Rightarrow> js_error + unit"
  reactions_listForIssueComment :: "string \<Rightarrow> string \<Rightarrow> nat \<Rightarrow> js_error + reaction list"
  reactions_deleteForIssueComment :: "string \<Rightarrow> string \<Rightarrow> nat \<Rightarrow> nat \<Rightarrow> js_error + unit"

text \<open>The key-value namespace: its entries, each with the \<^verbatim>\<open>expirationTtl\<close> it was put
  with, and whether an operation on a key rejects (the store is unreachable).\<close>

record kv_entry =
  entry_value :: string
  expirationTtl :: nat

type_synonym kv = "string \<rightharpoonup> kv_entry"

record kv_faults =
  get_fault :: "string \<Rightarrow> js_error option"
  put_fault :: "string \<Rightarrow> js_error option"
  delete_fault :: "string \<Rightarrow> js_error option"

text \<open>\<^verbatim>\<open>const stored = await get(key); if (!stored)\<close>: \<^verbatim>\<open>null\<close> for a missing key, and
  the empty string is falsy too.\<close>

definition kv_get_truthy :: "kv \<Rightarrow> string \<Rightarrow> string option" where
  "kv_get_truthy store k =
     (case store k of
        None \<Rightarrow> None
      | Some e \<Rightarrow> if entry_value e = [] then None else Some (entry_value e))"

text \<open>How a handler ends: it returns, or the promise it returned rejects. \<open>detached\<close>
  holds what a promise that is not awaited logs later, at a moment the handler does not
  control.\<close>

datatype outcome = Returned | Threw js_error

record result =
  outcome :: outcome
  trace :: "effect list"
  detached :: "effect list"
  storage :: kv

definition finish :: "outcome \<Rightarrow> effect list \<Rightarrow> kv \<Rightarrow> result" where
  "finish out t store = \<lparr>outcome = out, trace = t, detached = [], storage = store\<rparr>"

record repository_payload =
  repository_owner_login :: string
  repository_name :: string

record issue_comment_payload = repository_payload +
  comment_body :: string
  comment_user :: "string option" \<comment> \<open>\<^verbatim>\<open>comment.user.login\<close>, \<open>None\<close> when \<^verbatim>\<open>comment.user\<close> is null\<close>
  comment_id :: nat
  issue_pull_request :: bool \<comment> \<open>whether \<^verbatim>\<open>issue.pull_request\<close> is there\<close>
  issue_state :: string
  issue_number :: nat

record workflow_run_payload = repository_payload +
  workflow_run :: workflow_run

subsection \<open>\<^verbatim>\<open>isPRGreen\<close>, with its requests (lines 12 to 67)\<close>

definition isPRGreen :: "octokit \<Rightarrow> string \<Rightarrow> string \<Rightarrow> nat \<Rightarrow> (js_error + bool) \<times> effect list" where
  "isPRGreen octokit owner repo pullNumber =
     (let t1 = [Call (Pulls_get owner repo pullNumber)] in
      case pulls_get octokit owner repo pullNumber of
        Inl e \<Rightarrow> (Inl e, t1)
      | Inr sha \<Rightarrow>
     (let t2 = t1 @ [Call (Repos_getCombinedStatusForRef owner repo sha)] in
      case repos_getCombinedStatusForRef octokit owner repo sha of
        Inl e \<Rightarrow> (Inl e, t2)
      | Inr state \<Rightarrow>
     (let t3 = t2 @ [Call (Checks_listForRef owner repo sha)] in
      case checks_listForRef octokit owner repo sha of
        Inl e \<Rightarrow> (Inl e, t3)
      | Inr check_runs \<Rightarrow>
          (Inr (isGreen state check_runs), t3 @ [Log Debug ''PR green check'']))))"

section \<open>The comment-trigger handler: \<^verbatim>\<open>commentHandler\<close>\<close>

text \<open>
  \<^verbatim>\<open>JSON.stringify\<close> and \<^verbatim>\<open>JSON.parse\<close> belong to the platform; the handlers take them
  as parameters. \<open>JSON_stringify\<close> serialises a \<^verbatim>\<open>PackInfo\<close>. \<open>JSON_parse\<close> stands for
  line 228, \<^verbatim>\<open>const { prNumber, commentId, tag }: PackInfo = JSON.parse(stored)\<close>: it
  throws on a string that is not JSON and yields the fields otherwise.
\<close>

definition trigger_prefix :: string where
  "trigger_prefix = ''@discord-js-bot pack this''"

definition double_quote :: char where
  "double_quote = CHR 0x22"

text \<open>Lines 111 to 180: the gates have passed. The reaction request is started and not
  awaited; its rejection only logs a warning, later.\<close>

definition commentHandler_pack ::
  "(PackInfo \<Rightarrow> string) \<Rightarrow> octokit \<Rightarrow> kv_faults \<Rightarrow> kv \<Rightarrow> issue_comment_payload \<Rightarrow> effect list \<Rightarrow> result" where
  "commentHandler_pack JSON_stringify octokit faults store payload t =
     (let owner = repository_owner_login payload;
          repo = repository_name payload;
          t1 = t @ [Log Debug ''Beginning the pack process...'',
                    Call (Reactions_createForIssueComment owner repo (comment_id payload) ''eyes'')];
          later = (case reactions_createForIssueComment octokit owner repo (comment_id payload) ''eyes'' of
                     Inl e \<Rightarrow> [Log Warn ''Failed to update reactions on start'']
                   | Inr u \<Rightarrow> []);
          ref = ''refs/pull/'' @ number_toString (issue_number payload) @ ''/head'';
          tag = ''pr-'' @ number_toString (issue_number payload);
          t2 = t1 @ [Log Info ''Triggering release workflow'',
                     Call (Actions_createWorkflowDispatch ''discordjs'' ''discord.js'' ''publish-dev.yml''
                             ''main'' ref tag ''false'')]
      in
      case actions_createWorkflowDispatch octokit ''discordjs'' ''discord.js'' ''publish-dev.yml''
             ''main'' ref tag ''false'' of
        Inl e \<Rightarrow> (finish (Threw e) t2 store)\<lparr>detached := later\<rparr>
      | Inr u \<Rightarrow>
     (let t3 = t2 @ [Wait 5000,
                     Call (Actions_listWorkflowRuns ''discordjs'' ''discord.js'' ''publish-dev.yml'' 5)]
      in
      case actions_listWorkflowRuns octokit ''discordjs'' ''discord.js'' ''publish-dev.yml'' 5 of
        Inl e \<Rightarrow> (finish (Threw e) t3 store)\<lparr>detached := later\<rparr>
      | Inr workflow_runs \<Rightarrow>
     (case find (\<lambda>run. event run = ''workflow_dispatch'' \<and> run_status run \<noteq> Some ''completed'')
             workflow_runs of
        None \<Rightarrow>
          (finish Returned
             (t3 @ [Log Warn ''Could not find the workflow run that was just triggered'']) store)
          \<lparr>detached := later\<rparr>
      | Some workflowRun \<Rightarrow>
     (let packInfo = \<lparr>commentId = comment_id payload, prNumber = issue_number payload,
                       tag = tag, workflowRunId = run_id workflowRun\<rparr>;
          k = ''pack-'' @ number_toString (run_id workflowRun);
          t4 = t3 @ [Call (KV_put k (JSON_stringify packInfo) 3600)]
      in
      case put_fault faults k of
        Some e \<Rightarrow> (finish (Threw e) t4 store)\<lparr>detached := later\<rparr>
      | None \<Rightarrow>
          (finish Returned (t4 @ [Log Info ''Release workflow triggered successfully''])
             (store(k \<mapsto> \<lparr>entry_value = JSON_stringify packInfo, expirationTtl = 3600\<rparr>)))
          \<lparr>detached := later\<rparr>))))"

text \<open>Lines 69 to 109: the gates.\<close>

definition commentHandler ::
  "(PackInfo \<Rightarrow> string) \<Rightarrow> octokit \<Rightarrow> kv_faults \<Rightarrow> kv \<Rightarrow> issue_comment_payload \<Rightarrow> result" where
  "commentHandler JSON_stringify octokit faults store payload =
     (let owner = repository_owner_login payload;
          repo = repository_name payload;
          t0 = [Log Debug ''in comment handler'']
      in
      if \<not> prefix trigger_prefix (comment_body payload) then
        finish Returned
          (t0 @ [Log Debug (''Comment does not start with '' @ [double_quote] @ trigger_prefix
                            @ [double_quote])]) store
      else
      case comment_user payload of
        None \<Rightarrow>
          finish Returned (t0 @ [Log Debug ''Comment does not have a user associated with it'']) store
      | Some login \<Rightarrow>
      if \<not> issue_pull_request payload \<or> issue_state payload \<noteq> ''open'' then
        finish Returned
          (t0 @ [Log Debug ''Comment is not on a pull request or pull request is not open'']) store
      else
     (let t1 = t0 @ [Call (Repos_getCollaboratorPermissionLevel owner repo login)] in
      case repos_getCollaboratorPermissionLevel octokit owner repo login of
        Inl e \<Rightarrow> finish (Threw e) t1 store
      | Inr permission \<Rightarrow>
      if permission \<noteq> ''admin'' \<and> permission \<noteq> ''write'' then
        finish Returned
          (t1 @ [Log Debug (''User '' @ login @ '' does not have sufficient permissions to pack.'')])
          store
      else
     (case isPRGreen octokit owner repo (issue_number payload) of
        (Inl e, tg) \<Rightarrow> finish (Threw e) (t1 @ tg) store
      | (Inr green, tg) \<Rightarrow>
          if \<not> green then finish Returned (t1 @ tg) store
          else commentHandler_pack JSON_stringify octokit faults store payload (t1 @ tg))))"

section \<open>The workflow-completion handler: \<^verbatim>\<open>workflowRunHandler\<close>\<close>

definition backtick :: char where
  "backtick = CHR 0x60"

definition newline :: char where
  "newline = CHR 0x0A"

text \<open>The characters that open the template literal of line 248, as the UTF-8 bytes
  the source file holds for them.\<close>

definition package_emoji :: string where
  "package_emoji =
     [CHR 0xC3, CHR 0xB0, CHR 0xC5, CHR 0xB8, CHR 0xE2, CHR 0x80, CHR 0x9C, CHR 0xC2, CHR 0xA6]"

text \<open>The template literal of line 248.\<close>

definition comment_text :: "string \<Rightarrow> string" where
  "comment_text t =
     package_emoji @ '' Packages from this PR have been published with the tag '' @ [backtick]
     @ t @ [backtick] @ ''.'' @ [newline, newline] @ ''For discord.js using npm:'' @ [newline]
     @ [backtick, backtick, backtick] @ ''bash'' @ [newline] @ ''npm install discord.js@'' @ t
     @ [newline] @ [backtick, backtick, backtick]"

text \<open>A template literal prints \<^verbatim>\<open>undefined\<close> by its name.\<close>

definition template_string :: "string option \<Rightarrow> string" where
  "template_string v = (case v of None \<Rightarrow> ''undefined'' | Some s \<Rightarrow> s)"

text \<open>Lines 242 to 276: the \<^verbatim>\<open>try\<close> block. Its \<^verbatim>\<open>catch\<close> takes a rejection of the
  comment request and of the reaction listing alike; the reaction delete has a
  \<^verbatim>\<open>catch\<close> of its own.\<close>

definition workflowRunHandler_post ::
  "octokit \<Rightarrow> kv \<Rightarrow> workflow_run_payload \<Rightarrow> PackInfo \<Rightarrow> effect list \<Rightarrow> result" where
  "workflowRunHandler_post octokit store payload info t =
     (let owner = repository_owner_login payload;
          repo = repository_name payload;
          body = comment_text (tag info);
          t1 = t @ [Call (Issues_createComment owner repo (prNumber info) body)]
      in
      case issues_createComment octokit owner repo (prNumber info) body of
        Inl e \<Rightarrow> finish Returned (t1 @ [Log Error ''Failed to post comment'']) store
      | Inr u \<Rightarrow>
     (let t2 = t1 @ [Log Info ''Comment posted successfully'',
                     Call (Reactions_listForIssueComment owner repo (commentId info))]
      in
      case reactions_listForIssueComment octokit owner repo (commentId info) of
        Inl e \<Rightarrow> finish Returned (t2 @ [Log Error ''Failed to post comment'']) store
      | Inr reactions \<Rightarrow>
     (case find (\<lambda>reaction. content reaction = ''eyes'') reactions of
        None \<Rightarrow> finish Returned (t2 @ [Log Debug ''No eyes reaction found to remove'']) store
      | Some eyesReaction \<Rightarrow>
     (let t3 = t2 @ [Call (Reactions_deleteForIssueComment owner repo (reaction_id eyesReaction)
                             (commentId info))]
      in
      case reactions_deleteForIssueComment octokit owner repo (reaction_id eyesReaction)
             (commentId info) of
        Inl e \<Rightarrow> finish Returned (t3 @ [Log Warn ''Failed to remove eyes reaction'']) store
      | Inr u' \<Rightarrow> finish Returned t3 store))))"

text \<open>Lines 219 to 240: look the record up, parse it, delete it.\<close>

definition workflowRunHandler_consume ::
  "(string \<Rightarrow> js_error + PackInfo) \<Rightarrow> octokit \<Rightarrow> kv_faults \<Rightarrow> kv \<Rightarrow> workflow_run_payload
     \<Rightarrow> effect list \<Rightarrow> result" where
  "workflowRunHandler_consume JSON_parse octokit faults store payload t =
     (let packKey = ''pack-'' @ number_toString (run_id (workflow_run payload));
          t1 = t @ [Call (KV_get packKey)]
      in
      case get_fault faults packKey of
        Some e \<Rightarrow> finish (Threw e) t1 store
      | None \<Rightarrow>
     (case kv_get_truthy store packKey of
        None \<Rightarrow> finish Returned (t1 @ [Log Debug ''No pack info found for this workflow run'']) store
      | Some stored \<Rightarrow>
     (case JSON_parse stored of
        Inl e \<Rightarrow> finish (Threw e) t1 store
      | Inr info \<Rightarrow>
     (let t2 = t1 @ [Call (KV_delete packKey)] in
      case delete_fault faults packKey of
        Some e \<Rightarrow> finish (Threw e) t2 store
      | None \<Rightarrow>
          workflowRunHandler_post octokit (store(packKey := None)) payload info
            (t2 @ [Log Info ''Workflow completed, posting comment''])))))"

text \<open>Lines 182 to 217: the gates. \<^verbatim>\<open>appInfo!.slug\<close> throws a TypeError when the
  request resolved with \<^verbatim>\<open>null\<close>.\<close>

definition workflowRunHandler ::
  "(string \<Rightarrow> js_error + PackInfo) \<Rightarrow> octokit \<Rightarrow> kv_faults \<Rightarrow> kv \<Rightarrow> workflow_run_payload \<Rightarrow> result" where
  "workflowRunHandler JSON_parse octokit faults store payload =
     (let run = workflow_run payload;
          t0 = [Log Debug ''in workflow_run handler'']
      in
      if run_name run \<noteq> Some ''Publish dev'' then
        finish Returned (t0 @ [Log Debug ''Ignoring non-publish workflow'']) store
      else if event run \<noteq> ''workflow_dispatch'' then
        finish Returned (t0 @ [Log Debug ''Workflow not triggered by workflow_dispatch'']) store
      else if run_conclusion run \<noteq> Some ''success'' then
        finish Returned (t0 @ [Log Debug ''Workflow did not succeed'']) store
      else
     (let t1 = t0 @ [Call Apps_getAuthenticated] in
      case apps_getAuthenticated octokit of
        Inl e \<Rightarrow> finish (Threw e) t1 store
      | Inr None \<Rightarrow> finish (Threw TypeError) t1 store
      | Inr (Some appInfo) \<Rightarrow>
          if triggering_actor run \<noteq> Some (template_string (slug appInfo) @ ''[bot]'') then
            finish Returned (t1 @ [Log Debug ''Workflow not triggered by this bot'']) store
          else workflowRunHandler_consume JSON_parse octokit faults store payload t1))"

section \<open>Reading a trace\<close>

fun calls_of :: "effect list \<Rightarrow> call list" where
  "calls_of [] = []"
| "calls_of (Call c # es) = c # calls_of es"
| "calls_of (e # es) = calls_of es"

fun is_dispatch :: "call \<Rightarrow> bool" where
  "is_dispatch (Actions_createWorkflowDispatch owner repo workflow_id branch ref t dry_run) = True"
| "is_dispatch c = False"

fun is_put :: "call \<Rightarrow> bool" where
  "is_put (KV_put k v ttl) = True"
| "is_put c = False"

fun is_delete :: "call \<Rightarrow> bool" where
  "is_delete (KV_delete k) = True"
| "is_delete c = False"

fun is_createComment :: "call \<Rightarrow> bool" where
  "is_createComment (Issues_createComment owner repo n body) = True"
| "is_createComment c = False"

fun is_reaction_change :: "call \<Rightarrow> bool" where
  "is_reaction_change (Reactions_createForIssueComment owner repo c r) = True"
| "is_reaction_change (Reactions_deleteForIssueComment owner repo r c) = True"
| "is_reaction_change c = False"

text \<open>A log entry above the diagnostic level.\<close>

fun loud :: "effect \<Rightarrow> bool" where
  "loud (Log Debug m) = False"
| "loud (Log l m) = True"
| "loud e = False"

section \<open>The green rule as the specification words it\<close>

text \<open>
  The specification's rule, written from its words and not from the code: a run without
  a completion timestamp counts as completed at the epoch; the run kept for a name is the
  one with the latest timestamp among the runs of that name, the first of them in the list
  when several share it; a kept run fails when it is completed with a conclusion other
  than success, neutral and skipped; the pull request is green when the combined state is
  success and no kept run fails.
\<close>

definition spec_timestamp :: "check_run \<Rightarrow> int" where
  "spec_timestamp r = (case completed_at r of None \<Rightarrow> 0 | Some t \<Rightarrow> t)"

definition spec_kept :: "check_run list \<Rightarrow> nat \<Rightarrow> bool" where
  "spec_kept runs i \<longleftrightarrow>
     i < length runs \<and>
     (\<forall>j<length runs. name (runs ! j) = name (runs ! i) \<longrightarrow>
        spec_timestamp (runs ! j) \<le> spec_timestamp (runs ! i) \<and>
        (j < i \<longrightarrow> spec_timestamp (runs ! j) < spec_timestamp (runs ! i)))"

definition spec_failing :: "check_run \<Rightarrow> bool" where
  "spec_failing r \<longleftrightarrow>
     status r = ''completed'' \<and>
     conclusion r \<notin> {Some ''success'', Some ''neutral'', Some ''skipped''}"

definition spec_isGreen :: "string \<Rightarrow> check_run list \<Rightarrow> bool" where
  "spec_isGreen state runs \<longleftrightarrow>
     state = ''success'' \<and>
     (\<forall>i<length runs. spec_kept runs i \<longrightarrow> \<not> spec_failing (runs ! i))"

text \<open>What the accumulator holds for a name, in the specification's terms.\<close>

definition kept_at :: "check_run list \<Rightarrow> string \<Rightarrow> check_run option \<Rightarrow> bool" where
  "kept_at runs n v \<longleftrightarrow>
     (case v of
        None \<Rightarrow> \<forall>r\<in>set runs. name r \<noteq> n
      | Some r \<Rightarrow> \<exists>i. spec_kept runs i \<and> runs ! i = r \<and> name r = n)"

section \<open>Example values\<close>

text \<open>A failed check named after a member of \<^verbatim>\<open>Object.prototype\<close>, a failed build and
  its re-run in progress.\<close>

definition constructor_run :: check_run where
  "constructor_run = \<lparr>name = ''constructor'', status = ''completed'',
      conclusion = Some ''failure'', completed_at = Some 1700000000000\<rparr>"



text \<open>The serialisation of a \<^verbatim>\<open>PackInfo\<close> whose tag needs no escaping, keys in the order
  of the object literal of lines 171 to 176, and a parser that knows one record.\<close>

definition example_stringify :: "PackInfo \<Rightarrow> string" where
  "example_stringify info =
     ''{'' @ [double_quote] @ ''prNumber'' @ [double_quote] @ '':'' @ number_toString (prNumber info)
     @ '','' @ [double_quote] @ ''commentId'' @ [double_quote] @ '':'' @ number_toString (commentId info)
     @ '','' @ [double_quote] @ ''tag'' @ [double_quote] @ '':'' @ [double_quote] @ tag info @ [double_quote]
     @ '','' @ [double_quote] @ ''workflowRunId'' @ [double_quote] @ '':''
     @ number_toString (workflowRunId info) @ ''}''"

definition example_info :: PackInfo where
  "example_info = \<lparr>commentId = 7, prNumber = 42, tag = ''pr-42'', workflowRunId = 99\<rparr>"

definition example_parse :: "string \<Rightarrow> js_error + PackInfo" where
  "example_parse s = (if s = example_stringify example_info then Inr example_info else Inl SyntaxError)"

definition example_run :: workflow_run where
  "example_run = \<lparr>run_id = 99, run_name = Some ''Publish dev'', event = ''workflow_dispatch'',
     run_status = Some ''queued'', run_conclusion = None,
     triggering_actor = Some ''discord-js-bot[bot]''\<rparr>"

definition example_octokit :: octokit where
  "example_octokit =
     \<lparr>pulls_get = (\<lambda>owner repo n. Inr ''0123abc''),
      repos_getCombinedStatusForRef = (\<lambda>owner repo sha. Inr ''success''),
      checks_listForRef = (\<lambda>owner repo sha. Inr []),
      repos_getCollaboratorPermissionLevel = (\<lambda>owner repo login. Inr ''write''),
      reactions_createForIssueComment = (\<lambda>owner repo c r. Inr ()),
      actions_createWorkflowDispatch = (\<lambda>owner repo w branch ref t dry. Inr ()),
      actions_listWorkflowRuns = (\<lambda>owner repo w n. Inr [example_run]),
      apps_getAuthenticated = Inr (Some \<lparr>slug = Some ''discord-js-bot''\<rparr>),
      issues_createComment = (\<lambda>owner repo n body. Inr ()),
      reactions_listForIssueComment = (\<lambda>owner repo c. Inr [\<lparr>reaction_id = 5, content = ''eyes''\<rparr>]),
      reactions_deleteForIssueComment = (\<lambda>owner repo r c. Inr ())\<rparr>"

definition no_faults :: kv_faults where
  "no_faults = \<lparr>get_fault = (\<lambda>k. None), put_fault = (\<lambda>k. None), delete_fault = (\<lambda>k. None)\<rparr>"

definition example_comment :: issue_comment_payload where
  "example_comment =
     \<lparr>repository_owner_login = ''discordjs'', repository_name = ''discord.js'',
      comment_body = ''@discord-js-bot pack this please'', comment_user = Some ''alice'',
      comment_id = 7, issue_pull_request = True, issue_state = ''open'', issue_number = 42\<rparr>"

definition example_completion :: workflow_run_payload where
  "example_completion =
     \<lparr>repository_owner_login = ''discordjs'', repository_name = ''discord.js'',
      workflow_run = example_run\<lparr>run_status := Some ''completed'', run_conclusion := Some ''success''\<rparr>\<rparr>"

definition example_store :: kv where
  "example_store =
     [''pack-99'' \<mapsto> \<lparr>entry_value = example_stringify example_info, expirationTtl = 3600\<rparr>]"

section \<open>Properties of the green-check evaluator\<close>

subsection \<open>The accumulator\<close>

lemma map_of_set_property: "map_of (set_property ps k v) = (map_of ps)(k \<mapsto> v)"
  by (induction ps) (auto simp: fun_eq_iff)

lemma fst_set_property: "set (map fst (set_property ps k v)) = insert k (set (map fst ps))"
  by (induction ps) auto

lemma distinct_set_property:
  "distinct (map fst ps) \<Longrightarrow> distinct (map fst (set_property ps k v))"
proof (induction ps)
  case Nil
  then show ?case by simp
next
  case (Cons p ps)
  have "fst ` set (set_property ps k v) = insert k (fst ` set ps)"
    using fst_set_property [of ps k v] by simp
  with Cons show ?case by auto
qed

lemma date_gt_completed_at:
  "date_gt (new_Date (completed_at_arg (completed_at a))) (new_Date (completed_at_arg (completed_at b)))
     \<longleftrightarrow> spec_timestamp a > spec_timestamp b"
  by (simp add: completed_at_arg_def spec_timestamp_def split: option.splits)

lemma latest_step_own:
  "map_of latest (name run) = Some kept \<Longrightarrow>
     latest_step latest run =
       (if spec_timestamp run > spec_timestamp kept then set_property latest (name run) run else latest)"
  by (simp add: latest_step_def get_property_def date_gt_completed_at)

lemma latest_step_fresh:
  "map_of latest (name run) = None \<Longrightarrow> name run \<notin> set Object_prototype_keys \<Longrightarrow>
     latest_step latest run = set_property latest (name run) run"
  by (simp add: latest_step_def get_property_def)

text \<open>A run named after a member of \<^verbatim>\<open>Object.prototype\<close> never enters the accumulator.\<close>

lemma latest_step_inherited:
  "map_of latest (name run) = None \<Longrightarrow> name run \<in> set Object_prototype_keys \<Longrightarrow>
     latest_step latest run = latest"
  by (simp add: latest_step_def get_property_def)

lemma distinct_latest_step:
  "distinct (map fst latest) \<Longrightarrow> distinct (map fst (latest_step latest run))"
  by (cases "map_of latest (name run)")
     (auto simp: latest_step_def get_property_def Let_def intro: distinct_set_property)

lemma distinct_foldl_latest_step:
  "distinct (map fst latest) \<Longrightarrow> distinct (map fst (foldl latest_step latest runs))"
  by (induction runs arbitrary: latest) (auto intro: distinct_latest_step)

subsection \<open>The reduction against the specification's rule\<close>

lemma spec_kept_snoc_new:
  assumes "\<forall>j<length xs. name (xs ! j) = name x \<longrightarrow> spec_timestamp (xs ! j) < spec_timestamp x"
  shows "spec_kept (xs @ [x]) (length xs)"
  using assms by (auto simp: spec_kept_def nth_append less_Suc_eq)

lemma spec_kept_snoc_old:
  assumes "spec_kept xs i" "name x = name (xs ! i) \<longrightarrow> spec_timestamp x \<le> spec_timestamp (xs ! i)"
  shows "spec_kept (xs @ [x]) i"
  using assms by (auto simp: spec_kept_def nth_append less_Suc_eq)

lemma kept_at_latestCheckRuns:
  assumes "\<forall>r\<in>set runs. name r \<notin> set Object_prototype_keys"
  shows "kept_at runs n (map_of (latestCheckRuns runs) n)"
  using assms
proof (induction runs arbitrary: n rule: rev_induct)
  case Nil
  then show ?case by (simp add: kept_at_def latestCheckRuns_def)
next
  case (snoc x xs)
  let ?L = "latestCheckRuns xs"
  have IH: "\<And>m. kept_at xs m (map_of ?L m)" using snoc by simp
  have nx: "name x \<notin> set Object_prototype_keys" using snoc.prems by simp
  have step: "latestCheckRuns (xs @ [x]) = latest_step ?L x"
    by (simp add: latestCheckRuns_def)
  show ?case
  proof (cases "map_of ?L (name x)")
    case None
    then have fresh: "\<forall>r\<in>set xs. name r \<noteq> name x"
      using IH [of "name x"] by (simp add: kept_at_def)
    have L': "map_of (latestCheckRuns (xs @ [x])) = (map_of ?L)(name x \<mapsto> x)"
      by (simp add: step latest_step_fresh [OF None nx] map_of_set_property)
    show ?thesis
    proof (cases "n = name x")
      case True
      have "spec_kept (xs @ [x]) (length xs)"
        using fresh by (intro spec_kept_snoc_new) auto
      then show ?thesis using True L' by (auto simp: kept_at_def)
    next
      case False
      show ?thesis
      proof (cases "map_of ?L n")
        case None
        then show ?thesis using IH [of n] False L' by (auto simp: kept_at_def)
      next
        case (Some r)
        then obtain i where i: "spec_kept xs i" "xs ! i = r" "name r = n"
          using IH [of n] by (auto simp: kept_at_def)
        then have "spec_kept (xs @ [x]) i" using False by (intro spec_kept_snoc_old) auto
        moreover have "(xs @ [x]) ! i = r" using i by (simp add: spec_kept_def nth_append)
        ultimately show ?thesis using Some False L' i by (auto simp: kept_at_def)
      qed
    qed
  next
    case (Some kept)
    then obtain k where k: "spec_kept xs k" "xs ! k = kept" "name kept = name x"
      using IH [of "name x"] by (auto simp: kept_at_def)
    show ?thesis
    proof (cases "spec_timestamp x > spec_timestamp kept")
      case True
      have L': "map_of (latestCheckRuns (xs @ [x])) = (map_of ?L)(name x \<mapsto> x)"
        using True by (simp add: step latest_step_own [OF Some] map_of_set_property)
      show ?thesis
      proof (cases "n = name x")
        case nn: True
        have "spec_kept (xs @ [x]) (length xs)"
          using k True by (intro spec_kept_snoc_new) (fastforce simp: spec_kept_def)
        then show ?thesis using nn L' by (auto simp: kept_at_def)
      next
        case False
        show ?thesis
        proof (cases "map_of ?L n")
          case None
          then show ?thesis using IH [of n] False L' by (auto simp: kept_at_def)
        next
          case (Some r)
          then obtain i where i: "spec_kept xs i" "xs ! i = r" "name r = n"
            using IH [of n] by (auto simp: kept_at_def)
          then have "spec_kept (xs @ [x]) i" using False by (intro spec_kept_snoc_old) auto
          moreover have "(xs @ [x]) ! i = r" using i by (simp add: spec_kept_def nth_append)
          ultimately show ?thesis using Some False L' i by (auto simp: kept_at_def)
        qed
      qed
    next
      case False
      have L': "latestCheckRuns (xs @ [x]) = ?L"
        using False by (simp add: step latest_step_own [OF Some])
      show ?thesis
      proof (cases "map_of ?L n")
        case None
        then have "n \<noteq> name x" using Some by auto
        then show ?thesis using None IH [of n] L' by (auto simp: kept_at_def)
      next
        case Some2: (Some r)
        then obtain i where i: "spec_kept xs i" "xs ! i = r" "name r = n"
          using IH [of n] by (auto simp: kept_at_def)
        have "r = kept" if "n = name x" using that Some Some2 by simp
        then have "spec_kept (xs @ [x]) i" using False i by (intro spec_kept_snoc_old) auto
        moreover have "(xs @ [x]) ! i = r" using i by (simp add: spec_kept_def nth_append)
        ultimately show ?thesis using Some2 L' i by (auto simp: kept_at_def)
      qed
    qed
  qed
qed

lemma spec_kept_earlier:
  assumes "spec_kept runs i" "spec_kept runs j" "name (runs ! i) = name (runs ! j)" "i < j"
  shows False
proof -
  have lt: "i < length runs" "j < length runs"
    using assms by (simp_all add: spec_kept_def)
  have "spec_timestamp (runs ! i) < spec_timestamp (runs ! j)"
    using assms(2,3,4) lt(1) by (simp add: spec_kept_def)
  moreover have "spec_timestamp (runs ! j) \<le> spec_timestamp (runs ! i)"
    using assms(1,3) lt(2) by (simp add: spec_kept_def)
  ultimately show False by simp
qed

lemma spec_kept_unique:
  assumes "spec_kept runs i" "spec_kept runs j" "name (runs ! i) = name (runs ! j)"
  shows "i = j"
proof (rule ccontr)
  assume "i \<noteq> j"
  then consider "i < j" | "j < i" by linarith
  then show False
  proof cases
    case 1
    then show ?thesis using spec_kept_earlier [of runs i j] assms by simp
  next
    case 2
    then show ?thesis using spec_kept_earlier [of runs j i] assms by simp
  qed
qed

lemma is_failed_spec_failing: "is_failed r \<longleftrightarrow> spec_failing r"
  by (auto simp: is_failed_def spec_failing_def)

lemma Object_values_latestCheckRuns:
  assumes "\<forall>r\<in>set runs. name r \<notin> set Object_prototype_keys"
  shows "set (Object_values (latestCheckRuns runs)) = {runs ! i |i. spec_kept runs i}"
proof -
  let ?L = "latestCheckRuns runs"
  have d: "distinct (map fst ?L)"
    unfolding latestCheckRuns_def by (rule distinct_foldl_latest_step) simp
  have "set (Object_values ?L) = ran (map_of ?L)"
    using d by (simp add: Object_values_def ran_distinct)
  also have "\<dots> = {runs ! i |i. spec_kept runs i}"
  proof (intro set_eqI iffI)
    fix r assume "r \<in> ran (map_of ?L)"
    then obtain n where "map_of ?L n = Some r" by (auto simp: ran_def)
    then show "r \<in> {runs ! i |i. spec_kept runs i}"
      using kept_at_latestCheckRuns [OF assms, of n] by (auto simp: kept_at_def)
  next
    fix r assume "r \<in> {runs ! i |i. spec_kept runs i}"
    then obtain i where i: "spec_kept runs i" "r = runs ! i" by auto
    then have "runs ! i \<in> set runs" by (simp add: spec_kept_def)
    then have "map_of ?L (name r) \<noteq> None"
      using kept_at_latestCheckRuns [OF assms, of "name r"] i
      by (auto simp: kept_at_def split: option.splits)
    then obtain r' where r': "map_of ?L (name r) = Some r'" by auto
    then obtain j where j: "spec_kept runs j" "runs ! j = r'" "name r' = name r"
      using kept_at_latestCheckRuns [OF assms, of "name r"] by (auto simp: kept_at_def)
    have "name (runs ! i) = name (runs ! j)" using i(2) j(2,3) by simp
    then have "i = j" using i(1) j(1) by (rule spec_kept_unique [of runs i j, rotated 2])
    then have "r' = r" using i(2) j(2) by simp
    then show "r \<in> ran (map_of ?L)" using r' by (simp add: ranI)
  qed
  finally show ?thesis .
qed

text \<open>
  Off the names of \<^verbatim>\<open>Object.prototype\<close>, the code computes the specification's rule.
\<close>

lemma isGreen_refines_spec:
  assumes "\<forall>r\<in>set runs. name r \<notin> set Object_prototype_keys"
  shows "isGreen state runs \<longleftrightarrow> spec_isGreen state runs"
proof -
  have "failedChecks runs = [] \<longleftrightarrow> (\<forall>r\<in>set (Object_values (latestCheckRuns runs)). \<not> is_failed r)"
    by (simp add: failedChecks_def filter_empty_conv)
  also have "\<dots> \<longleftrightarrow> (\<forall>i<length runs. spec_kept runs i \<longrightarrow> \<not> spec_failing (runs ! i))"
    unfolding Object_values_latestCheckRuns [OF assms] is_failed_spec_failing
    by (auto simp: spec_kept_def)
  finally show ?thesis by (simp add: isGreen_def spec_isGreen_def)
qed

lemma isPRGreen_value:
  assumes "pulls_get octokit owner repo n = Inr sha"
    and "repos_getCombinedStatusForRef octokit owner repo sha = Inr state"
    and "checks_listForRef octokit owner repo sha = Inr check_runs"
  shows "fst (isPRGreen octokit owner repo n) = Inr (isGreen state check_runs)"
  using assms by (simp add: isPRGreen_def Let_def)

lemma constructor_inherited:
  "get_property [] ''constructor'' = (Inherited :: check_run property)"
  by (simp add: get_property_def Object_prototype_keys_def)

lemma constructor_dropped: "latestCheckRuns [constructor_run] = []"
  by (simp add: latestCheckRuns_def latest_step_def constructor_run_def constructor_inherited)

lemma constructor_kept: "spec_kept [constructor_run] 0"
  by (simp add: spec_kept_def)

lemma constructor_failing: "spec_failing constructor_run"
  by (simp add: spec_failing_def constructor_run_def)

lemma spec_isGreen_constructor_check: "\<not> spec_isGreen ''success'' [constructor_run]"
  using constructor_kept constructor_failing by (auto simp: spec_isGreen_def)

text \<open>
  Claim C1. \<^verbatim>\<open>isGreen\<close> is true exactly when the combined status state is
  \<open>success\<close> and, of the latest runs per check name (latest completion timestamp, the first
  run on a tie), none is completed with a conclusion outside success, neutral and skipped.
  The code departs from this on a check named after a member of \<^verbatim>\<open>Object.prototype\<close>.
  With the combined state \<open>success\<close> and the single check run \<open>constructor\<close>, completed
  with conclusion \<open>failure\<close>, the run counts as failed, yet the reduction keeps no run at
  all and \<^verbatim>\<open>isGreen\<close> is true; the rule keeps that run, finds it failing and gives false
  (\<open>spec_isGreen_constructor_check\<close>). Off those names the code computes the rule
  (\<open>isGreen_refines_spec\<close>).
\<close>

theorem isGreen_ignores_constructor_check:
  "is_failed constructor_run \<and> latestCheckRuns [constructor_run] = [] \<and>
   isGreen ''success'' [constructor_run]"
proof -
  have "is_failed constructor_run"
    by (simp add: is_failed_def constructor_run_def)
  moreover have "isGreen ''success'' [constructor_run]"
    by (simp add: isGreen_def failedChecks_def constructor_dropped Object_values_def)
  ultimately show ?thesis by (simp add: constructor_dropped)
qed

section \<open>Properties of the handlers\<close>

subsection \<open>Traces\<close>

lemma calls_of_append [simp]: "calls_of (a @ b) = calls_of a @ calls_of b"
  by (induction a rule: calls_of.induct) auto

lemma finish_simps [simp]:
  "outcome (finish out t store) = out"
  "trace (finish out t store) = t"
  "detached (finish out t store) = []"
  "storage (finish out t store) = store"
  by (simp_all add: finish_def)

lemma calls_of_isPRGreen:
  "c \<in> set (calls_of (snd (isPRGreen octokit owner repo n))) \<Longrightarrow>
     \<not> is_dispatch c \<and> \<not> is_put c \<and> \<not> is_delete c \<and> \<not> is_createComment c \<and> \<not> is_reaction_change c"
  by (auto simp: isPRGreen_def Let_def split: sum.splits)

lemma isPRGreen_puts:
  "filter is_put (calls_of (snd (isPRGreen octokit owner repo n))) = []"
  using calls_of_isPRGreen [of _ octokit owner repo n] by (auto simp: filter_empty_conv)

lemma isPRGreen_quiet:
  "filter loud (snd (isPRGreen octokit owner repo n)) = []"
  by (simp add: isPRGreen_def Let_def split: sum.splits)

subsection \<open>The phases of \<^verbatim>\<open>workflowRunHandler\<close>\<close>

lemma post_outcome:
  "outcome (workflowRunHandler_post octokit store payload info t) = Returned"
  by (simp add: workflowRunHandler_post_def Let_def split: sum.splits option.splits)

lemma post_storage:
  "storage (workflowRunHandler_post octokit store payload info t) = store"
  by (simp add: workflowRunHandler_post_def Let_def split: sum.splits option.splits)

lemma post_calls:
  "calls_of (trace (workflowRunHandler_post octokit store payload info t)) =
     calls_of t @
     Issues_createComment (repository_owner_login payload) (repository_name payload) (prNumber info)
       (comment_text (tag info)) #
     (case issues_createComment octokit (repository_owner_login payload) (repository_name payload)
             (prNumber info) (comment_text (tag info)) of
        Inl e \<Rightarrow> []
      | Inr u \<Rightarrow>
          Reactions_listForIssueComment (repository_owner_login payload) (repository_name payload)
            (commentId info) #
          (case reactions_listForIssueComment octokit (repository_owner_login payload)
                  (repository_name payload) (commentId info) of
             Inl e \<Rightarrow> []
           | Inr reactions \<Rightarrow>
               (case find (\<lambda>reaction. content reaction = ''eyes'') reactions of
                  None \<Rightarrow> []
                | Some r \<Rightarrow>
                    [Reactions_deleteForIssueComment (repository_owner_login payload)
                       (repository_name payload) (reaction_id r) (commentId info)])))"
  by (simp add: workflowRunHandler_post_def Let_def split: sum.splits option.splits)

lemma consume_absent:
  assumes "kv_get_truthy store (''pack-'' @ number_toString (run_id (workflow_run payload))) = None"
  shows "storage (workflowRunHandler_consume JSON_parse octokit faults store payload t) = store \<and>
         calls_of (trace (workflowRunHandler_consume JSON_parse octokit faults store payload t)) =
           calls_of t @ [KV_get (''pack-'' @ number_toString (run_id (workflow_run payload)))]"
  using assms by (simp add: workflowRunHandler_consume_def Let_def split: option.splits)

lemma consume_deleted:
  assumes "c \<in> set (calls_of (trace (workflowRunHandler_consume JSON_parse octokit faults store payload t)))"
    and "is_delete c" and "\<forall>c\<in>set (calls_of t). \<not> is_delete c"
    and "outcome (workflowRunHandler_consume JSON_parse octokit faults store payload t) = Returned"
  shows "storage (workflowRunHandler_consume JSON_parse octokit faults store payload t)
           (''pack-'' @ number_toString (run_id (workflow_run payload))) = None"
  using assms
  by (auto simp: workflowRunHandler_consume_def Let_def post_storage post_calls kv_get_truthy_def
           split: option.splits sum.splits if_splits)

lemma sublist_comment_text: "sublist t (comment_text t)"
  unfolding comment_text_def sublist_def by (metis append.assoc)

subsection \<open>The pack phase of \<^verbatim>\<open>commentHandler\<close>\<close>

lemma pack_puts:
  assumes "actions_createWorkflowDispatch octokit ''discordjs'' ''discord.js'' ''publish-dev.yml'' ''main''
             (''refs/pull/'' @ number_toString (issue_number payload) @ ''/head'')
             (''pr-'' @ number_toString (issue_number payload)) ''false'' = Inr ()"
    and "actions_listWorkflowRuns octokit ''discordjs'' ''discord.js'' ''publish-dev.yml'' 5 = Inr workflow_runs"
  shows "filter is_put (calls_of (trace (commentHandler_pack JSON_stringify octokit faults store payload t))) =
           filter is_put (calls_of t) @
           (case find (\<lambda>run. event run = ''workflow_dispatch'' \<and> run_status run \<noteq> Some ''completed'')
                   workflow_runs of
              None \<Rightarrow> []
            | Some run \<Rightarrow>
                [KV_put (''pack-'' @ number_toString (run_id run))
                   (JSON_stringify \<lparr>commentId = comment_id payload, prNumber = issue_number payload,
                      tag = ''pr-'' @ number_toString (issue_number payload),
                      workflowRunId = run_id run\<rparr>) 3600])"
    and "storage (commentHandler_pack JSON_stringify octokit faults store payload t) =
           (case find (\<lambda>run. event run = ''workflow_dispatch'' \<and> run_status run \<noteq> Some ''completed'')
                   workflow_runs of
              None \<Rightarrow> store
            | Some run \<Rightarrow>
                (case put_fault faults (''pack-'' @ number_toString (run_id run)) of
                   Some e \<Rightarrow> store
                 | None \<Rightarrow>
                     store(''pack-'' @ number_toString (run_id run) \<mapsto>
                       \<lparr>entry_value = JSON_stringify \<lparr>commentId = comment_id payload,
                            prNumber = issue_number payload,
                            tag = ''pr-'' @ number_toString (issue_number payload),
                            workflowRunId = run_id run\<rparr>,
                        expirationTtl = 3600\<rparr>)))"
  using assms
  by (simp_all add: commentHandler_pack_def Let_def split: option.splits)

subsection \<open>The examples, evaluated\<close>

lemma number_toString_42: "number_toString 42 = ''42''"
  by code_simp

lemma number_toString_99: "number_toString 99 = ''99''"
  by code_simp

lemma example_green:
  "isPRGreen example_octokit ''discordjs'' ''discord.js'' 42 =
     (Inr True, [Call (Pulls_get ''discordjs'' ''discord.js'' 42),
                 Call (Repos_getCombinedStatusForRef ''discordjs'' ''discord.js'' ''0123abc''),
                 Call (Checks_listForRef ''discordjs'' ''discord.js'' ''0123abc''),
                 Log Debug ''PR green check''])"
  by (simp add: isPRGreen_def example_octokit_def isGreen_def failedChecks_def latestCheckRuns_def
        Object_values_def)

lemma example_comment_simps:
  "comment_body example_comment = ''@discord-js-bot pack this please''"
  "comment_user example_comment = Some ''alice''"
  "comment_id example_comment = 7"
  "issue_pull_request example_comment"
  "issue_state example_comment = ''open''"
  "issue_number example_comment = 42"
  "repository_owner_login example_comment = ''discordjs''"
  "repository_name example_comment = ''discord.js''"
  by (simp_all add: example_comment_def)

lemma example_octokit_simps:
  "repos_getCollaboratorPermissionLevel example_octokit owner repo login = Inr ''write''"
  "reactions_createForIssueComment example_octokit owner repo c r = Inr ()"
  "actions_createWorkflowDispatch example_octokit owner repo w branch ref t dry = Inr ()"
  "actions_listWorkflowRuns example_octokit owner repo w n = Inr [example_run]"
  "apps_getAuthenticated example_octokit = Inr (Some \<lparr>slug = Some ''discord-js-bot''\<rparr>)"
  "issues_createComment example_octokit owner repo n body = Inr ()"
  "reactions_listForIssueComment example_octokit owner repo c =
     Inr [\<lparr>reaction_id = 5, content = ''eyes''\<rparr>]"
  "reactions_deleteForIssueComment example_octokit owner repo rid c = Inr ()"
  by (simp_all add: example_octokit_def)

lemma example_completion_simps:
  "run_name (workflow_run example_completion) = Some ''Publish dev''"
  "event (workflow_run example_completion) = ''workflow_dispatch''"
  "run_conclusion (workflow_run example_completion) = Some ''success''"
  "triggering_actor (workflow_run example_completion) = Some ''discord-js-bot[bot]''"
  "run_id (workflow_run example_completion) = 99"
  "repository_owner_login example_completion = ''discordjs''"
  "repository_name example_completion = ''discord.js''"
  by (simp_all add: example_completion_def example_run_def)

lemma example_bot: "template_string (Some ''discord-js-bot'') = ''discord-js-bot''"
  by (simp add: template_string_def)

lemma example_store_get:
  "kv_get_truthy example_store ''pack-99'' = Some (example_stringify example_info)"
  by (simp add: kv_get_truthy_def example_store_def example_stringify_def)

lemma example_parse_info: "example_parse (example_stringify example_info) = Inr example_info"
  by (simp add: example_parse_def)

lemma example_info_simps:
  "prNumber example_info = 42" "commentId example_info = 7" "tag example_info = ''pr-42''"
  "workflowRunId example_info = 99"
  by (simp_all add: example_info_def)

lemma no_faults_simps:
  "get_fault no_faults k = None" "put_fault no_faults k = None" "delete_fault no_faults k = None"
  by (simp_all add: no_faults_def)

text \<open>The specification's example: the trigger on the open pull request 42 by a user
  with write permission, status success and no failing check, dispatches the workflow with
  ref \<open>refs/pull/42/head\<close> and tag \<open>pr-42\<close> and stores the record under the run found.\<close>

lemma example_trigger:
  "calls_of (trace (commentHandler example_stringify example_octokit no_faults Map.empty example_comment)) =
     [Repos_getCollaboratorPermissionLevel ''discordjs'' ''discord.js'' ''alice'',
      Pulls_get ''discordjs'' ''discord.js'' 42,
      Repos_getCombinedStatusForRef ''discordjs'' ''discord.js'' ''0123abc'',
      Checks_listForRef ''discordjs'' ''discord.js'' ''0123abc'',
      Reactions_createForIssueComment ''discordjs'' ''discord.js'' 7 ''eyes'',
      Actions_createWorkflowDispatch ''discordjs'' ''discord.js'' ''publish-dev.yml'' ''main''
        ''refs/pull/42/head'' ''pr-42'' ''false'',
      Actions_listWorkflowRuns ''discordjs'' ''discord.js'' ''publish-dev.yml'' 5,
      KV_put ''pack-99'' (example_stringify example_info) 3600]"
  by (simp add: commentHandler_def commentHandler_pack_def trigger_prefix_def Let_def
        example_comment_simps example_octokit_simps example_green no_faults_simps
        number_toString_42 number_toString_99 example_run_def example_info_def)

lemma example_completed:
  "calls_of (trace (workflowRunHandler example_parse example_octokit no_faults example_store
      example_completion)) =
     [Apps_getAuthenticated, KV_get ''pack-99'', KV_delete ''pack-99'',
      Issues_createComment ''discordjs'' ''discord.js'' 42 (comment_text ''pr-42''),
      Reactions_listForIssueComment ''discordjs'' ''discord.js'' 7,
      Reactions_deleteForIssueComment ''discordjs'' ''discord.js'' 5 7] \<and>
   outcome (workflowRunHandler example_parse example_octokit no_faults example_store
      example_completion) = Returned"
  by (simp add: workflowRunHandler_def workflowRunHandler_consume_def workflowRunHandler_post_def
        Let_def example_completion_simps example_octokit_simps example_bot no_faults_simps
        number_toString_99 example_store_get example_parse_info example_info_simps)

lemma isPRGreen_other_requests:
  "isPRGreen (octokit\<lparr>repos_getCollaboratorPermissionLevel := p\<rparr>) = isPRGreen octokit"
  "isPRGreen (octokit\<lparr>actions_listWorkflowRuns := l\<rparr>) = isPRGreen octokit"
  by (simp_all add: isPRGreen_def fun_eq_iff Let_def split: sum.splits)

section \<open>The claims about \<^verbatim>\<open>commentHandler\<close>\<close>

text \<open>
  Claim C8. When the comment body does not start with the exact trigger prefix
  \<open>@discord-js-bot pack this\<close> (compared as it stands: case-sensitive, nothing trimmed),
  the comment-trigger handler returns before any outbound call: no request to the API, no
  reaction started, no store operation; the store is as it was.
\<close>

theorem commentHandler_without_prefix_no_call:
  assumes "\<not> prefix ''@discord-js-bot pack this'' (comment_body payload)"
  shows "calls_of (trace (commentHandler JSON_stringify octokit faults store payload)) = [] \<and>
         detached (commentHandler JSON_stringify octokit faults store payload) = [] \<and>
         storage (commentHandler JSON_stringify octokit faults store payload) = store \<and>
         outcome (commentHandler JSON_stringify octokit faults store payload) = Returned"
  using assms by (simp add: commentHandler_def trigger_prefix_def Let_def)

theorem commentHandler_without_prefix_no_call_witness:
  "\<not> prefix ''@discord-js-bot pack this'' '' @discord-js-bot pack this'' \<and>
   calls_of (trace (commentHandler example_stringify example_octokit no_faults Map.empty
      (example_comment\<lparr>comment_body := '' @discord-js-bot pack this''\<rparr>))) = [] \<and>
   \<not> prefix ''@discord-js-bot pack this'' ''@Discord-js-bot pack this'' \<and>
   calls_of (trace (commentHandler example_stringify example_octokit no_faults Map.empty
      (example_comment\<lparr>comment_body := ''@Discord-js-bot pack this''\<rparr>))) = []"
proof -
  have h1: "\<not> prefix ''@discord-js-bot pack this''
              (comment_body (example_comment\<lparr>comment_body := '' @discord-js-bot pack this''\<rparr>))"
    by simp
  have h2: "\<not> prefix ''@discord-js-bot pack this''
              (comment_body (example_comment\<lparr>comment_body := ''@Discord-js-bot pack this''\<rparr>))"
    by simp
  show ?thesis
    using commentHandler_without_prefix_no_call
            [OF h1, of example_stringify example_octokit no_faults Map.empty]
          commentHandler_without_prefix_no_call
            [OF h2, of example_stringify example_octokit no_faults Map.empty] h1 h2
    by simp
qed

text \<open>
  Claim C3. The comment-trigger handler dispatches the release workflow only if every
  gate holds: the body starts with the trigger prefix, the comment has an author, the
  issue is a pull request and is open, the author's permission is \<open>admin\<close> or \<open>write\<close>,
  and \<^verbatim>\<open>isPRGreen\<close> returned true. When a gate fails (no prefix, no author, not a pull
  request, not open, a permission other than those two such as \<open>read\<close>, \<open>none\<close> or
  \<open>triage\<close>, or a pull request that is not green) the handler returns without an error,
  logs nothing above the diagnostic level, dispatches nothing and leaves the store as it
  was.
\<close>

theorem commentHandler_dispatch_only_through_gates:
  "((\<exists>c\<in>set (calls_of (trace (commentHandler JSON_stringify octokit faults store payload))).
        is_dispatch c) \<longrightarrow>
      prefix ''@discord-js-bot pack this'' (comment_body payload) \<and>
      issue_pull_request payload \<and> issue_state payload = ''open'' \<and>
      (\<exists>login permission.
         comment_user payload = Some login \<and>
         repos_getCollaboratorPermissionLevel octokit (repository_owner_login payload)
           (repository_name payload) login = Inr permission \<and>
         (permission = ''admin'' \<or> permission = ''write'')) \<and>
      fst (isPRGreen octokit (repository_owner_login payload) (repository_name payload)
             (issue_number payload)) = Inr True) \<and>
   ((\<not> prefix ''@discord-js-bot pack this'' (comment_body payload) \<or>
     comment_user payload = None \<or>
     \<not> issue_pull_request payload \<or> issue_state payload \<noteq> ''open'' \<or>
     (\<exists>login permission.
        comment_user payload = Some login \<and>
        repos_getCollaboratorPermissionLevel octokit (repository_owner_login payload)
          (repository_name payload) login = Inr permission \<and>
        (permission \<noteq> ''admin'' \<and> permission \<noteq> ''write'' \<or>
         fst (isPRGreen octokit (repository_owner_login payload) (repository_name payload)
                (issue_number payload)) = Inr False))) \<longrightarrow>
      outcome (commentHandler JSON_stringify octokit faults store payload) = Returned \<and>
      filter loud (trace (commentHandler JSON_stringify octokit faults store payload)) = [] \<and>
      (\<forall>c\<in>set (calls_of (trace (commentHandler JSON_stringify octokit faults store payload))).
         \<not> is_dispatch c) \<and>
      storage (commentHandler JSON_stringify octokit faults store payload) = store)"
proof -
  let ?green = "isPRGreen octokit (repository_owner_login payload) (repository_name payload)
                  (issue_number payload)"
  have green: "\<And>c. c \<in> set (calls_of (snd ?green)) \<Longrightarrow> \<not> is_dispatch c"
    using calls_of_isPRGreen by blast
  have quiet: "filter loud (snd ?green) = []"
    by (rule isPRGreen_quiet)
  show ?thesis
    by (cases ?green)
       (use green quiet in \<open>auto simp: commentHandler_def trigger_prefix_def Let_def
          split: sum.splits option.splits prod.splits\<close>)
qed

theorem commentHandler_dispatch_only_through_gates_witness:
  "(\<exists>c\<in>set (calls_of (trace (commentHandler example_stringify example_octokit no_faults Map.empty
        example_comment))). is_dispatch c) \<and>
   fst (isPRGreen example_octokit ''discordjs'' ''discord.js'' 42) = Inr True \<and>
   outcome (commentHandler example_stringify
      (example_octokit\<lparr>repos_getCollaboratorPermissionLevel := \<lambda>owner repo login. Inr ''read''\<rparr>)
      no_faults Map.empty example_comment) = Returned \<and>
   filter is_dispatch (calls_of (trace (commentHandler example_stringify
      (example_octokit\<lparr>repos_getCollaboratorPermissionLevel := \<lambda>owner repo login. Inr ''read''\<rparr>)
      no_faults Map.empty example_comment))) = []"
proof -
  have d: "\<exists>c\<in>set (calls_of (trace (commentHandler example_stringify example_octokit no_faults
             Map.empty example_comment))). is_dispatch c"
    by (simp add: example_trigger)
  show ?thesis
    using d
      commentHandler_dispatch_only_through_gates
        [of example_stringify example_octokit no_faults Map.empty example_comment]
      commentHandler_dispatch_only_through_gates
        [of example_stringify
            "example_octokit\<lparr>repos_getCollaboratorPermissionLevel := \<lambda>owner repo login. Inr ''read''\<rparr>"
            no_faults Map.empty example_comment]
    by (simp add: example_comment_simps filter_empty_conv)
qed

text \<open>
  Claim C4. After a trigger that passes every gate and whose dispatch succeeds: if the
  listed recent runs hold a run with event \<open>workflow_dispatch\<close> and a status other than
  \<open>completed\<close>, exactly one put is issued, under the key \<open>pack-<runId>\<close> of the first such
  run, with the serialised record of the pull request number, the triggering comment id,
  the tag \<open>pr-<prNumber>\<close> and the run id, and with the expiration TTL 3600, and (the
  store accepting it) that entry is the one change of the store; if there is no such run,
  no put is issued and the store is as it was.
\<close>

theorem commentHandler_correlation_record:
  assumes "prefix ''@discord-js-bot pack this'' (comment_body payload)"
    and "comment_user payload = Some login"
    and "issue_pull_request payload" and "issue_state payload = ''open''"
    and "repos_getCollaboratorPermissionLevel octokit (repository_owner_login payload)
           (repository_name payload) login = Inr permission"
    and "permission = ''admin'' \<or> permission = ''write''"
    and "fst (isPRGreen octokit (repository_owner_login payload) (repository_name payload)
           (issue_number payload)) = Inr True"
    and "actions_createWorkflowDispatch octokit ''discordjs'' ''discord.js'' ''publish-dev.yml'' ''main''
           (''refs/pull/'' @ number_toString (issue_number payload) @ ''/head'')
           (''pr-'' @ number_toString (issue_number payload)) ''false'' = Inr ()"
    and "actions_listWorkflowRuns octokit ''discordjs'' ''discord.js'' ''publish-dev.yml'' 5 = Inr workflow_runs"
  shows "(\<forall>run.
            find (\<lambda>run. event run = ''workflow_dispatch'' \<and> run_status run \<noteq> Some ''completed'')
              workflow_runs = Some run \<longrightarrow>
            filter is_put (calls_of (trace (commentHandler JSON_stringify octokit faults store payload))) =
              [KV_put (''pack-'' @ number_toString (run_id run))
                 (JSON_stringify \<lparr>commentId = comment_id payload, prNumber = issue_number payload,
                    tag = ''pr-'' @ number_toString (issue_number payload),
                    workflowRunId = run_id run\<rparr>) 3600] \<and>
            (put_fault faults (''pack-'' @ number_toString (run_id run)) = None \<longrightarrow>
               storage (commentHandler JSON_stringify octokit faults store payload) =
                 store(''pack-'' @ number_toString (run_id run) \<mapsto>
                   \<lparr>entry_value = JSON_stringify \<lparr>commentId = comment_id payload,
                        prNumber = issue_number payload,
                        tag = ''pr-'' @ number_toString (issue_number payload),
                        workflowRunId = run_id run\<rparr>,
                    expirationTtl = 3600\<rparr>))) \<and>
         (find (\<lambda>run. event run = ''workflow_dispatch'' \<and> run_status run \<noteq> Some ''completed'')
            workflow_runs = None \<longrightarrow>
            filter is_put (calls_of (trace (commentHandler JSON_stringify octokit faults store payload))) = [] \<and>
            storage (commentHandler JSON_stringify octokit faults store payload) = store)"
proof -
  let ?green = "isPRGreen octokit (repository_owner_login payload) (repository_name payload)
                  (issue_number payload)"
  obtain tg where g: "?green = (Inr True, tg)"
    using assms(7) by (cases ?green) auto
  have tg: "filter is_put (calls_of tg) = []"
    using isPRGreen_puts [of octokit "repository_owner_login payload" "repository_name payload"
        "issue_number payload"] g by simp
  have run: "commentHandler JSON_stringify octokit faults store payload =
      commentHandler_pack JSON_stringify octokit faults store payload
        ([Log Debug ''in comment handler'',
          Call (Repos_getCollaboratorPermissionLevel (repository_owner_login payload)
                  (repository_name payload) login)] @ tg)"
    using assms(1-6) g by (auto simp: commentHandler_def trigger_prefix_def Let_def)
  show ?thesis
    unfolding run using pack_puts [OF assms(8,9), of JSON_stringify faults store] tg
    by (auto split: option.splits)
qed

theorem commentHandler_correlation_record_witness:
  "filter is_put (calls_of (trace (commentHandler example_stringify example_octokit no_faults
      Map.empty example_comment))) = [KV_put ''pack-99'' (example_stringify example_info) 3600] \<and>
   storage (commentHandler example_stringify example_octokit no_faults Map.empty example_comment) =
     [''pack-99'' \<mapsto> \<lparr>entry_value = example_stringify example_info, expirationTtl = 3600\<rparr>] \<and>
   filter is_put (calls_of (trace (commentHandler example_stringify
      (example_octokit\<lparr>actions_listWorkflowRuns :=
         \<lambda>owner repo w n. Inr [example_run\<lparr>run_status := Some ''completed''\<rparr>]\<rparr>)
      no_faults Map.empty example_comment))) = [] \<and>
   storage (commentHandler example_stringify
      (example_octokit\<lparr>actions_listWorkflowRuns :=
         \<lambda>owner repo w n. Inr [example_run\<lparr>run_status := Some ''completed''\<rparr>]\<rparr>)
      no_faults Map.empty example_comment) = Map.empty"
proof -
  let ?late = "example_octokit\<lparr>actions_listWorkflowRuns :=
                 \<lambda>owner repo w n. Inr [example_run\<lparr>run_status := Some ''completed''\<rparr>]\<rparr>"
  have green: "fst (isPRGreen example_octokit ''discordjs'' ''discord.js'' 42) = Inr True"
    by (simp add: example_green)
  have found: "find (\<lambda>run. event run = ''workflow_dispatch'' \<and> run_status run \<noteq> Some ''completed'')
                 [example_run] = Some example_run"
    by (simp add: example_run_def)
  have missed: "find (\<lambda>run. event run = ''workflow_dispatch'' \<and> run_status run \<noteq> Some ''completed'')
                 [example_run\<lparr>run_status := Some ''completed''\<rparr>] = None"
    by simp
  have info: "\<lparr>commentId = 7, prNumber = 42, tag = ''pr-42'', workflowRunId = 99\<rparr>
                = example_info" "run_id example_run = 99"
    by (simp_all add: example_info_def example_run_def)
  have one: "filter is_put (calls_of (trace (commentHandler example_stringify example_octokit
               no_faults Map.empty example_comment))) =
               [KV_put ''pack-99'' (example_stringify example_info) 3600] \<and>
             storage (commentHandler example_stringify example_octokit no_faults Map.empty
               example_comment) =
               [''pack-99'' \<mapsto> \<lparr>entry_value = example_stringify example_info, expirationTtl = 3600\<rparr>]"
    using commentHandler_correlation_record
      [where payload = example_comment and login = "''alice''" and octokit = example_octokit
         and permission = "''write''" and workflow_runs = "[example_run]"
         and JSON_stringify = example_stringify and faults = no_faults and store = Map.empty]
      green found
    by (simp add: example_comment_simps example_octokit_simps no_faults_simps number_toString_42
          number_toString_99 info)
  have none: "filter is_put (calls_of (trace (commentHandler example_stringify ?late no_faults
                Map.empty example_comment))) = [] \<and>
              storage (commentHandler example_stringify ?late no_faults Map.empty example_comment) =
                Map.empty"
    using commentHandler_correlation_record
      [where payload = example_comment and login = "''alice''" and octokit = ?late
         and permission = "''write''"
         and workflow_runs = "[example_run\<lparr>run_status := Some ''completed''\<rparr>]"
         and JSON_stringify = example_stringify and faults = no_faults and store = Map.empty]
      green missed
    by (simp add: example_comment_simps example_octokit_simps isPRGreen_other_requests)
  show ?thesis using one none by simp
qed


section \<open>The claims about \<^verbatim>\<open>workflowRunHandler\<close>\<close>

text \<open>
  Claim C5. A completion event whose workflow name is not the release workflow's, or
  whose event is not \<open>workflow_dispatch\<close>, or whose conclusion is not \<open>success\<close>, or
  whose triggering actor's login is not \<open><app-slug>[bot]\<close> (whatever the identity request
  answers, and also when the event and the conclusion are the expected ones) makes the
  handler post no comment and delete no record: the store is as it was.
\<close>

theorem workflowRunHandler_gate_frame:
  assumes "run_name (workflow_run payload) \<noteq> Some ''Publish dev'' \<or>
           event (workflow_run payload) \<noteq> ''workflow_dispatch'' \<or>
           run_conclusion (workflow_run payload) \<noteq> Some ''success'' \<or>
           (\<forall>appInfo. apps_getAuthenticated octokit = Inr (Some appInfo) \<longrightarrow>
              triggering_actor (workflow_run payload) \<noteq> Some (template_string (slug appInfo) @ ''[bot]''))"
  shows "(\<forall>c\<in>set (calls_of (trace (workflowRunHandler JSON_parse octokit faults store payload))).
            \<not> is_createComment c \<and> \<not> is_delete c) \<and>
         storage (workflowRunHandler JSON_parse octokit faults store payload) = store"
  using assms by (auto simp: workflowRunHandler_def Let_def split: sum.splits option.splits)

theorem workflowRunHandler_gate_frame_witness:
  "filter is_createComment (calls_of (trace (workflowRunHandler example_parse example_octokit
      no_faults example_store
      (example_completion\<lparr>workflow_run := (workflow_run example_completion)\<lparr>run_name := Some ''CI''\<rparr>\<rparr>)))) = [] \<and>
   storage (workflowRunHandler example_parse example_octokit no_faults example_store
      (example_completion\<lparr>workflow_run := (workflow_run example_completion)\<lparr>run_name := Some ''CI''\<rparr>\<rparr>))
     = example_store \<and>
   filter is_delete (calls_of (trace (workflowRunHandler example_parse example_octokit
      no_faults example_store
      (example_completion\<lparr>workflow_run :=
         (workflow_run example_completion)\<lparr>triggering_actor := Some ''alice''\<rparr>\<rparr>)))) = [] \<and>
   storage (workflowRunHandler example_parse example_octokit no_faults example_store
      (example_completion\<lparr>workflow_run :=
         (workflow_run example_completion)\<lparr>triggering_actor := Some ''alice''\<rparr>\<rparr>))
     = example_store"
proof -
  let ?ci = "example_completion\<lparr>workflow_run := (workflow_run example_completion)\<lparr>run_name := Some ''CI''\<rparr>\<rparr>"
  let ?human = "example_completion\<lparr>workflow_run :=
                  (workflow_run example_completion)\<lparr>triggering_actor := Some ''alice''\<rparr>\<rparr>"
  have h1: "run_name (workflow_run ?ci) \<noteq> Some ''Publish dev''"
    by simp
  have h2: "\<forall>appInfo. apps_getAuthenticated example_octokit = Inr (Some appInfo) \<longrightarrow>
              triggering_actor (workflow_run ?human) \<noteq> Some (template_string (slug appInfo) @ ''[bot]'')"
    by (simp add: example_octokit_simps example_bot)
  show ?thesis
    using workflowRunHandler_gate_frame
            [where payload = ?ci and octokit = example_octokit and JSON_parse = example_parse
               and faults = no_faults and store = example_store]
          workflowRunHandler_gate_frame
            [where payload = ?human and octokit = example_octokit and JSON_parse = example_parse
               and faults = no_faults and store = example_store]
          h1 h2
    by (simp add: filter_empty_conv)
qed

text \<open>
  Claim C2. For a completion event that passes the four gates and whose record is in the
  store (and parses), the handler deletes that record, issues exactly one comment request,
  on the pull request number of the record and with a body that contains the record's tag,
  and, the comment posted and the reactions listed, deletes the first \<open>eyes\<close> reaction from
  the comment id of the record when there is one, and changes no reaction when there is
  none.
\<close>

theorem workflowRunHandler_consumes_record:
  assumes "run_name (workflow_run payload) = Some ''Publish dev''"
    and "event (workflow_run payload) = ''workflow_dispatch''"
    and "run_conclusion (workflow_run payload) = Some ''success''"
    and "apps_getAuthenticated octokit = Inr (Some appInfo)"
    and "triggering_actor (workflow_run payload) = Some (template_string (slug appInfo) @ ''[bot]'')"
    and "get_fault faults (''pack-'' @ number_toString (run_id (workflow_run payload))) = None"
    and "kv_get_truthy store (''pack-'' @ number_toString (run_id (workflow_run payload))) = Some stored"
    and "JSON_parse stored = Inr info"
    and "delete_fault faults (''pack-'' @ number_toString (run_id (workflow_run payload))) = None"
  shows "outcome (workflowRunHandler JSON_parse octokit faults store payload) = Returned \<and>
         storage (workflowRunHandler JSON_parse octokit faults store payload) =
           store(''pack-'' @ number_toString (run_id (workflow_run payload)) := None) \<and>
         filter is_delete (calls_of (trace (workflowRunHandler JSON_parse octokit faults store payload))) =
           [KV_delete (''pack-'' @ number_toString (run_id (workflow_run payload)))] \<and>
         filter is_createComment
             (calls_of (trace (workflowRunHandler JSON_parse octokit faults store payload))) =
           [Issues_createComment (repository_owner_login payload) (repository_name payload)
              (prNumber info) (comment_text (tag info))] \<and>
         sublist (tag info) (comment_text (tag info)) \<and>
         (\<forall>reactions.
            issues_createComment octokit (repository_owner_login payload) (repository_name payload)
              (prNumber info) (comment_text (tag info)) = Inr () \<and>
            reactions_listForIssueComment octokit (repository_owner_login payload)
              (repository_name payload) (commentId info) = Inr reactions \<longrightarrow>
            filter is_reaction_change
                (calls_of (trace (workflowRunHandler JSON_parse octokit faults store payload))) =
              (case find (\<lambda>reaction. content reaction = ''eyes'') reactions of
                 None \<Rightarrow> []
               | Some r \<Rightarrow>
                   [Reactions_deleteForIssueComment (repository_owner_login payload)
                      (repository_name payload) (reaction_id r) (commentId info)]))"
  using assms
  by (auto simp: workflowRunHandler_def workflowRunHandler_consume_def Let_def post_storage
        post_outcome post_calls sublist_comment_text split: sum.splits option.splits)

theorem workflowRunHandler_consumes_record_witness:
  "storage (workflowRunHandler example_parse example_octokit no_faults example_store example_completion)
     = example_store(''pack-99'' := None) \<and>
   filter is_createComment (calls_of (trace
      (workflowRunHandler example_parse example_octokit no_faults example_store example_completion))) =
     [Issues_createComment ''discordjs'' ''discord.js'' 42 (comment_text ''pr-42'')] \<and>
   filter is_reaction_change (calls_of (trace
      (workflowRunHandler example_parse example_octokit no_faults example_store example_completion))) =
     [Reactions_deleteForIssueComment ''discordjs'' ''discord.js'' 5 7]"
  using workflowRunHandler_consumes_record
    [where payload = example_completion and octokit = example_octokit
       and appInfo = "\<lparr>slug = Some ''discord-js-bot''\<rparr>" and faults = no_faults
       and store = example_store and stored = "example_stringify example_info"
       and JSON_parse = example_parse and info = example_info]
  by (simp add: example_completion_simps example_octokit_simps example_bot number_toString_99
        example_store_get example_parse_info no_faults_simps example_info_simps)

text \<open>
  Claim C6. Once a delivery of a completion event has deleted the record (it issued the
  delete and returned), the lookup of the same key finds no record, and a second delivery
  of the event, whatever the API and the parser answer then, posts no comment, deletes
  nothing, changes no reaction, writes nothing and leaves the store as the first delivery
  left it.
\<close>

theorem workflowRunHandler_redelivery_noop:
  assumes "\<exists>c\<in>set (calls_of (trace (workflowRunHandler JSON_parse octokit faults store payload))).
             is_delete c"
    and "outcome (workflowRunHandler JSON_parse octokit faults store payload) = Returned"
  shows "kv_get_truthy (storage (workflowRunHandler JSON_parse octokit faults store payload))
           (''pack-'' @ number_toString (run_id (workflow_run payload))) = None \<and>
         (\<forall>c\<in>set (calls_of (trace (workflowRunHandler JSON_parse' octokit' faults'
                     (storage (workflowRunHandler JSON_parse octokit faults store payload)) payload))).
            \<not> is_createComment c \<and> \<not> is_delete c \<and> \<not> is_reaction_change c \<and> \<not> is_put c) \<and>
         storage (workflowRunHandler JSON_parse' octokit' faults'
                    (storage (workflowRunHandler JSON_parse octokit faults store payload)) payload) =
           storage (workflowRunHandler JSON_parse octokit faults store payload)"
proof -
  let ?k = "''pack-'' @ number_toString (run_id (workflow_run payload))"
  let ?first = "workflowRunHandler JSON_parse octokit faults store payload"
  have gone: "storage ?first ?k = None"
    using assms
    by (auto simp: workflowRunHandler_def Let_def split: sum.splits option.splits if_splits
          dest!: consume_deleted [rotated 3])
  then have absent: "kv_get_truthy (storage ?first) ?k = None"
    by (simp add: kv_get_truthy_def)
  show ?thesis
    using absent consume_absent [OF absent]
    by (auto simp: workflowRunHandler_def Let_def split: sum.splits option.splits)
qed

theorem workflowRunHandler_redelivery_noop_witness:
  "kv_get_truthy (storage (workflowRunHandler example_parse example_octokit no_faults example_store
      example_completion)) ''pack-99'' = None \<and>
   filter is_createComment (calls_of (trace (workflowRunHandler example_parse example_octokit no_faults
      (storage (workflowRunHandler example_parse example_octokit no_faults example_store
         example_completion)) example_completion))) = [] \<and>
   filter is_reaction_change (calls_of (trace (workflowRunHandler example_parse example_octokit no_faults
      (storage (workflowRunHandler example_parse example_octokit no_faults example_store
         example_completion)) example_completion))) = [] \<and>
   storage (workflowRunHandler example_parse example_octokit no_faults
      (storage (workflowRunHandler example_parse example_octokit no_faults example_store
         example_completion)) example_completion) =
     storage (workflowRunHandler example_parse example_octokit no_faults example_store
       example_completion)"
proof -
  have deleted: "\<exists>c\<in>set (calls_of (trace (workflowRunHandler example_parse example_octokit no_faults
        example_store example_completion))). is_delete c"
    by (simp add: example_completed)
  have returned: "outcome (workflowRunHandler example_parse example_octokit no_faults example_store
        example_completion) = Returned"
    by (simp add: example_completed)
  show ?thesis
    using workflowRunHandler_redelivery_noop
      [OF deleted returned, of example_parse example_octokit no_faults]
    by (simp add: example_completion_simps number_toString_99 filter_empty_conv)
qed

text \<open>
  Claim C7. When the comment request of the completion handler rejects, the handler
  takes the rejection itself and logs it as an error; it returns instead of throwing. The
  delete of the record was issued before the comment request, so the record is gone from
  the store; there is one comment request in the trace and none after it, and no reaction
  request.
\<close>

theorem workflowRunHandler_comment_failure_caught:
  assumes "run_name (workflow_run payload) = Some ''Publish dev''"
    and "event (workflow_run payload) = ''workflow_dispatch''"
    and "run_conclusion (workflow_run payload) = Some ''success''"
    and "apps_getAuthenticated octokit = Inr (Some appInfo)"
    and "triggering_actor (workflow_run payload) = Some (template_string (slug appInfo) @ ''[bot]'')"
    and "get_fault faults (''pack-'' @ number_toString (run_id (workflow_run payload))) = None"
    and "kv_get_truthy store (''pack-'' @ number_toString (run_id (workflow_run payload))) = Some stored"
    and "JSON_parse stored = Inr info"
    and "delete_fault faults (''pack-'' @ number_toString (run_id (workflow_run payload))) = None"
    and "issues_createComment octokit (repository_owner_login payload) (repository_name payload)
           (prNumber info) (comment_text (tag info)) = Inl e"
  shows "outcome (workflowRunHandler JSON_parse octokit faults store payload) = Returned \<and>
         trace (workflowRunHandler JSON_parse octokit faults store payload) =
           [Log Debug ''in workflow_run handler'',
            Call Apps_getAuthenticated,
            Call (KV_get (''pack-'' @ number_toString (run_id (workflow_run payload)))),
            Call (KV_delete (''pack-'' @ number_toString (run_id (workflow_run payload)))),
            Log Info ''Workflow completed, posting comment'',
            Call (Issues_createComment (repository_owner_login payload) (repository_name payload)
                    (prNumber info) (comment_text (tag info))),
            Log Error ''Failed to post comment''] \<and>
         storage (workflowRunHandler JSON_parse octokit faults store payload) =
           store(''pack-'' @ number_toString (run_id (workflow_run payload)) := None)"
  using assms
  by (simp add: workflowRunHandler_def workflowRunHandler_consume_def workflowRunHandler_post_def Let_def)

theorem workflowRunHandler_comment_failure_caught_witness:
  "outcome (workflowRunHandler example_parse
      (example_octokit\<lparr>issues_createComment := \<lambda>owner repo n body. Inl (RequestError ''403'')\<rparr>)
      no_faults example_store example_completion) = Returned \<and>
   calls_of (trace (workflowRunHandler example_parse
      (example_octokit\<lparr>issues_createComment := \<lambda>owner repo n body. Inl (RequestError ''403'')\<rparr>)
      no_faults example_store example_completion)) =
     [Apps_getAuthenticated, KV_get ''pack-99'', KV_delete ''pack-99'',
      Issues_createComment ''discordjs'' ''discord.js'' 42 (comment_text ''pr-42'')] \<and>
   storage (workflowRunHandler example_parse
      (example_octokit\<lparr>issues_createComment := \<lambda>owner repo n body. Inl (RequestError ''403'')\<rparr>)
      no_faults example_store example_completion) = example_store(''pack-99'' := None)"
  using workflowRunHandler_comment_failure_caught
    [where payload = example_completion
       and octokit = "example_octokit\<lparr>issues_createComment :=
                        \<lambda>owner repo n body. Inl (RequestError ''403'')\<rparr>"
       and appInfo = "\<lparr>slug = Some ''discord-js-bot''\<rparr>" and faults = no_faults
       and store = example_store and stored = "example_stringify example_info"
       and JSON_parse = example_parse and info = example_info and e = "RequestError ''403''"]
  by (simp add: example_completion_simps example_octokit_simps example_bot number_toString_99
        example_store_get example_parse_info no_faults_simps example_info_simps)

text \<open>
  Claim C9, as the code has it. The completion handler parses the stored string before it
  issues the delete. For a completion event that passes the four gates and whose key holds
  an entry: when the stored string is not empty and the parse throws (the string is not
  JSON), the error leaves the handler, no comment request and no delete is issued, and the
  record stays in the store; when the stored string is empty, the guard of line 223 takes
  it for a missing record, so nothing is parsed and nothing is thrown, the handler
  returns, and again no comment request and no delete is issued and the record stays in
  the store.
\<close>

theorem workflowRunHandler_parse_before_delete:
  assumes "run_name (workflow_run payload) = Some ''Publish dev''"
    and "event (workflow_run payload) = ''workflow_dispatch''"
    and "run_conclusion (workflow_run payload) = Some ''success''"
    and "apps_getAuthenticated octokit = Inr (Some appInfo)"
    and "triggering_actor (workflow_run payload) = Some (template_string (slug appInfo) @ ''[bot]'')"
    and "get_fault faults (''pack-'' @ number_toString (run_id (workflow_run payload))) = None"
    and "store (''pack-'' @ number_toString (run_id (workflow_run payload))) = Some entry"
  shows "(entry_value entry \<noteq> [] \<and> JSON_parse (entry_value entry) = Inl e \<longrightarrow>
            outcome (workflowRunHandler JSON_parse octokit faults store payload) = Threw e \<and>
            storage (workflowRunHandler JSON_parse octokit faults store payload) = store \<and>
            calls_of (trace (workflowRunHandler JSON_parse octokit faults store payload)) =
              [Apps_getAuthenticated,
               KV_get (''pack-'' @ number_toString (run_id (workflow_run payload)))]) \<and>
         (entry_value entry = [] \<longrightarrow>
            outcome (workflowRunHandler JSON_parse octokit faults store payload) = Returned \<and>
            storage (workflowRunHandler JSON_parse octokit faults store payload) = store \<and>
            calls_of (trace (workflowRunHandler JSON_parse octokit faults store payload)) =
              [Apps_getAuthenticated,
               KV_get (''pack-'' @ number_toString (run_id (workflow_run payload)))])"
  using assms
  by (simp add: workflowRunHandler_def workflowRunHandler_consume_def kv_get_truthy_def Let_def)

theorem workflowRunHandler_parse_before_delete_witness:
  "outcome (workflowRunHandler example_parse example_octokit no_faults
      [''pack-99'' \<mapsto> \<lparr>entry_value = ''not json'', expirationTtl = 3600\<rparr>] example_completion)
     = Threw SyntaxError \<and>
   storage (workflowRunHandler example_parse example_octokit no_faults
      [''pack-99'' \<mapsto> \<lparr>entry_value = ''not json'', expirationTtl = 3600\<rparr>] example_completion)
     = [''pack-99'' \<mapsto> \<lparr>entry_value = ''not json'', expirationTtl = 3600\<rparr>] \<and>
   calls_of (trace (workflowRunHandler example_parse example_octokit no_faults
      [''pack-99'' \<mapsto> \<lparr>entry_value = ''not json'', expirationTtl = 3600\<rparr>] example_completion))
     = [Apps_getAuthenticated, KV_get ''pack-99''] \<and>
   storage (workflowRunHandler example_parse example_octokit no_faults
      [''pack-99'' \<mapsto> \<lparr>entry_value = [], expirationTtl = 3600\<rparr>] example_completion)
     = [''pack-99'' \<mapsto> \<lparr>entry_value = [], expirationTtl = 3600\<rparr>] \<and>
   calls_of (trace (workflowRunHandler example_parse example_octokit no_faults
      [''pack-99'' \<mapsto> \<lparr>entry_value = [], expirationTtl = 3600\<rparr>] example_completion))
     = [Apps_getAuthenticated, KV_get ''pack-99'']"
proof -
  have parse: "example_parse ''not json'' = Inl SyntaxError"
    by (simp add: example_parse_def example_stringify_def)
  have full: "outcome (workflowRunHandler example_parse example_octokit no_faults
      [''pack-99'' \<mapsto> \<lparr>entry_value = ''not json'', expirationTtl = 3600\<rparr>] example_completion)
     = Threw SyntaxError \<and>
   storage (workflowRunHandler example_parse example_octokit no_faults
      [''pack-99'' \<mapsto> \<lparr>entry_value = ''not json'', expirationTtl = 3600\<rparr>] example_completion)
     = [''pack-99'' \<mapsto> \<lparr>entry_value = ''not json'', expirationTtl = 3600\<rparr>] \<and>
   calls_of (trace (workflowRunHandler example_parse example_octokit no_faults
      [''pack-99'' \<mapsto> \<lparr>entry_value = ''not json'', expirationTtl = 3600\<rparr>] example_completion))
     = [Apps_getAuthenticated, KV_get ''pack-99'']"
    using workflowRunHandler_parse_before_delete
      [where payload = example_completion and octokit = example_octokit
         and appInfo = "\<lparr>slug = Some ''discord-js-bot''\<rparr>" and faults = no_faults
         and store = "[''pack-99'' \<mapsto> \<lparr>entry_value = ''not json'', expirationTtl = 3600\<rparr>]"
         and entry = "\<lparr>entry_value = ''not json'', expirationTtl = 3600\<rparr>"
         and JSON_parse = example_parse and e = SyntaxError]
      parse
    by (simp add: example_completion_simps example_octokit_simps example_bot number_toString_99
          no_faults_simps)
  have empty: "storage (workflowRunHandler example_parse example_octokit no_faults
      [''pack-99'' \<mapsto> \<lparr>entry_value = [], expirationTtl = 3600\<rparr>] example_completion)
     = [''pack-99'' \<mapsto> \<lparr>entry_value = [], expirationTtl = 3600\<rparr>] \<and>
   calls_of (trace (workflowRunHandler example_parse example_octokit no_faults
      [''pack-99'' \<mapsto> \<lparr>entry_value = [], expirationTtl = 3600\<rparr>] example_completion))
     = [Apps_getAuthenticated, KV_get ''pack-99'']"
    using workflowRunHandler_parse_before_delete
      [where payload = example_completion and octokit = example_octokit
         and appInfo = "\<lparr>slug = Some ''discord-js-bot''\<rparr>" and faults = no_faults
         and store = "[''pack-99'' \<mapsto> \<lparr>entry_value = [], expirationTtl = 3600\<rparr>]"
         and entry = "\<lparr>entry_value = [], expirationTtl = 3600\<rparr>"
         and JSON_parse = example_parse]
    by (simp add: example_completion_simps example_octokit_simps example_bot number_toString_99
          no_faults_simps)
  show ?thesis using full empty by simp
qed

text \<open>
  Stated for every stored value that is not valid JSON, the property fails. The empty
  string is such a value (the parser throws on it); stored under the key of a completion
  event that passes the gates, it does not make the handler throw: the handler returns
  after the debug entry of line 224.
\<close>

theorem workflowRunHandler_empty_record_returns:
  "example_parse [] = Inl SyntaxError \<and>
   outcome (workflowRunHandler example_parse example_octokit no_faults
      [''pack-99'' \<mapsto> \<lparr>entry_value = [], expirationTtl = 3600\<rparr>] example_completion)
     = Returned \<and>
   trace (workflowRunHandler example_parse example_octokit no_faults
      [''pack-99'' \<mapsto> \<lparr>entry_value = [], expirationTtl = 3600\<rparr>] example_completion)
     = [Log Debug ''in workflow_run handler'', Call Apps_getAuthenticated, Call (KV_get ''pack-99''),
        Log Debug ''No pack info found for this workflow run'']"
proof -
  have "example_parse [] = Inl SyntaxError"
    by (simp add: example_parse_def example_stringify_def)
  then show ?thesis
    by (simp add: workflowRunHandler_def workflowRunHandler_consume_def kv_get_truthy_def Let_def
          example_completion_simps example_octokit_simps example_bot number_toString_99
          no_faults_simps)
qed

section \<open>The claim about runs without a completion timestamp\<close>








end
